theory Spec2Isabelle
  imports Main "HOL-Library.Multiset"
begin

section \<open>The entity aggregator of the field-report dashboard\<close>

text \<open>
  The dashboard reads a decoded JSON document of sentiment results and folds the entity
  mentions of all documents into one roster, in \<^verbatim>\<open>extract_entities_from_sentiment_data\<close>
  of \<^verbatim>\<open>streamlit_app.py\<close>, and orders the roster for its table in
  \<^verbatim>\<open>create_entity_dataframe\<close>. This theory embeds both functions and proves what
  the specification says about them.

  The input is modelled at the types the specification gives it: a mention is a dictionary
  from field names to strings (a field may be absent), a document holds an optional
  dictionary of mentions, and the top-level value is either \<^verbatim>\<open>None\<close> or a
  dictionary that may or may not have a \<^verbatim>\<open>documents\<close> entry. A Python string is
  embedded as the list of the bytes of its UTF-8 encoding; the aggregator only compares
  strings for equality, which this embedding preserves.
\<close>

subsection \<open>Data model\<close>

text \<open>One mention: the dictionary \<^verbatim>\<open>entity_data\<close>, its values strings.\<close>

type_synonym mention = "string \<rightharpoonup> string"

text \<open>
  One document. \<^verbatim>\<open>entities\<close> is the value under the key of that name, absent or a
  dictionary from entity identifiers to mentions, kept as the list of its items in
  iteration order.
\<close>

record document =
  entities :: "(string \<times> mention) list option"

text \<open>
  The top-level dictionary: the value under \<^verbatim>\<open>documents\<close>, absent or a list of
  documents, and the names of the dictionary's other keys, whose values are never read.
\<close>

record sentiment_data =
  documents :: "document list option"
  other_keys :: "string list"

text \<open>One record of the roster, the dictionary appended at lines 128 to 134.\<close>

record entity =
  name :: string
  type :: string
  sentiment :: string
  mention_count :: int
  government_role :: string

subsection \<open>The aggregation\<close>

text \<open>\<^verbatim>\<open>d.get(k, default)\<close> on a dictionary.\<close>

definition dict_get :: "('k \<rightharpoonup> 'v) \<Rightarrow> 'k \<Rightarrow> 'v \<Rightarrow> 'v" where
  "dict_get d k dflt = (case d k of None \<Rightarrow> dflt | Some v \<Rightarrow> v)"

text \<open>
  The role table of lines 99 to 104. The accented letters of two keys are written as
  their UTF-8 bytes.
\<close>

definition entity_roles :: "string \<rightharpoonup> string" where
  "entity_roles = map_of
     [(''Jos'' @ [CHR 0xC3, CHR 0xA9] @ '' Ra'' @ [CHR 0xC3, CHR 0xBA] @ ''l Mulino'',
         ''President of Panama''),
      (''Ana Rojas'', ''Defense Chief''),
      (''Carlos M'' @ [CHR 0xC3, CHR 0xA9] @ ''ndez'', ''Minister of the Interior''),
      (''Marta Linares'', ''Vice President'')]"

text \<open>Lines 112 to 114: the three fields of a mention, each with its default.\<close>

definition mention_name :: "mention \<Rightarrow> string" where
  "mention_name entity_data = dict_get entity_data ''entity_name'' ''Unknown''"

definition mention_sentiment :: "mention \<Rightarrow> string" where
  "mention_sentiment entity_data = dict_get entity_data ''sentiment'' ''neutral''"

definition mention_type :: "mention \<Rightarrow> string" where
  "mention_type entity_data = dict_get entity_data ''entity_type'' ''Unknown''"

text \<open>Line 117: the role of a name.\<close>

definition role_of :: "string \<Rightarrow> string" where
  "role_of entity_name = dict_get entity_roles entity_name ''Unknown Role''"

text \<open>
  Lines 123 to 126, the update of the record that already exists: the count goes up by
  one, and the sentiment becomes \<^verbatim>\<open>mixed\<close> when the mention's sentiment differs from
  the one the record holds now.
\<close>

definition merge_mention :: "string \<Rightarrow> entity \<Rightarrow> entity" where
  "merge_mention snt existing_entity =
     (let e = existing_entity\<lparr>mention_count := mention_count existing_entity + 1\<rparr>
      in if snt \<noteq> sentiment e then e\<lparr>sentiment := ''mixed''\<rparr> else e)"

text \<open>
  The source mutates the dictionary that \<^verbatim>\<open>next(...)\<close> returned, which is the first
  element of the list that satisfies the test: the list changes at that position only.
\<close>

fun update_first :: "('a \<Rightarrow> bool) \<Rightarrow> ('a \<Rightarrow> 'a) \<Rightarrow> 'a list \<Rightarrow> 'a list" where
  "update_first P f [] = []"
| "update_first P f (x # xs) = (if P x then f x # xs else x # update_first P f xs)"

text \<open>
  Lines 112 to 134, the body of the inner loop. \<^verbatim>\<open>if existing_entity\<close> tests a
  dictionary of five entries or \<^verbatim>\<open>None\<close>, so it is true exactly when a record was
  found.
\<close>

definition process_mention :: "entity list \<Rightarrow> mention \<Rightarrow> entity list" where
  "process_mention es entity_data =
     (let entity_name = mention_name entity_data;
          snt = mention_sentiment entity_data;
          entity_type = mention_type entity_data;
          role = role_of entity_name
      in case find (\<lambda>e. name e = entity_name) es of
           Some existing_entity \<Rightarrow>
             update_first (\<lambda>e. name e = entity_name) (merge_mention snt) es
         | None \<Rightarrow>
             es @ [\<lparr>name = entity_name, type = entity_type, sentiment = snt,
                    mention_count = 1, government_role = role\<rparr>])"

text \<open>Line 110: \<^verbatim>\<open>doc.get('entities', {})\<close>, as the list of its items.\<close>

definition doc_entities :: "document \<Rightarrow> (string \<times> mention) list" where
  "doc_entities doc = (case entities doc of None \<Rightarrow> [] | Some d \<Rightarrow> d)"

text \<open>Lines 110 to 134: the inner loop over the items of one document.\<close>

definition process_document :: "entity list \<Rightarrow> document \<Rightarrow> entity list" where
  "process_document es doc = foldl process_mention es (map snd (doc_entities doc))"

text \<open>
  Line 95: \<^verbatim>\<open>not data\<close> holds of \<^verbatim>\<open>None\<close> and of the dictionary with no key at
  all.
\<close>

definition falsy :: "sentiment_data option \<Rightarrow> bool" where
  "falsy data =
     (case data of None \<Rightarrow> True | Some d \<Rightarrow> documents d = None \<and> other_keys d = [])"

text \<open>Line 107: \<^verbatim>\<open>data.get('documents', [])\<close>.\<close>

definition get_documents :: "sentiment_data option \<Rightarrow> document list" where
  "get_documents data =
     (case data of None \<Rightarrow> []
      | Some d \<Rightarrow> (case documents d of None \<Rightarrow> [] | Some ds \<Rightarrow> ds))"

text \<open>Lines 93 to 136.\<close>

definition extract_entities_from_sentiment_data :: "sentiment_data option \<Rightarrow> entity list" where
  "extract_entities_from_sentiment_data data =
     (if falsy data then [] else foldl process_document [] (get_documents data))"

subsection \<open>Notions the statements use\<close>

text \<open>All mentions of the input, in the order in which the two loops visit them.\<close>

definition all_mentions :: "sentiment_data option \<Rightarrow> mention list" where
  "all_mentions data = concat (map (\<lambda>doc. map snd (doc_entities doc)) (get_documents data))"

text \<open>The mentions of one entity, in that order.\<close>

definition mentions_of :: "string \<Rightarrow> mention list \<Rightarrow> mention list" where
  "mentions_of n ms = filter (\<lambda>m. mention_name m = n) ms"

text \<open>Each value of a list once, at the place of its first occurrence.\<close>

fun first_seen :: "'a list \<Rightarrow> 'a list" where
  "first_seen [] = []"
| "first_seen (x # xs) = x # first_seen (removeAll x xs)"


subsection \<open>The sorted table\<close>




text \<open>The record that lines 128 to 134 append for the first mention of an entity.\<close>

definition new_entity :: "mention \<Rightarrow> entity" where
  "new_entity entity_data =
     \<lparr>name = mention_name entity_data, type = mention_type entity_data,
      sentiment = mention_sentiment entity_data, mention_count = 1,
      government_role = role_of (mention_name entity_data)\<rparr>"

text \<open>A record after the later mentions of its entity have been merged into it, in order.\<close>

definition merge_all :: "entity \<Rightarrow> mention list \<Rightarrow> entity" where
  "merge_all e ms = foldl (\<lambda>e m. merge_mention (mention_sentiment m) e) e ms"

subsection \<open>Example inputs\<close>

text \<open>
  The scenario of the specification: the first document mentions A negatively, the
  second mentions A positively and B neutrally.
\<close>

definition scenario :: "sentiment_data option" where
  "scenario = Some \<lparr>documents = Some
     [\<lparr>entities = Some
         [(''0'', [''entity_name'' \<mapsto> ''A'', ''sentiment'' \<mapsto> ''negative''])]\<rparr>,
      \<lparr>entities = Some
         [(''0'', [''entity_name'' \<mapsto> ''A'', ''sentiment'' \<mapsto> ''positive'']),
          (''1'', [''entity_name'' \<mapsto> ''B'', ''sentiment'' \<mapsto> ''neutral''])]\<rparr>],
     other_keys = []\<rparr>"



text \<open>
  Two documents about an official of the role table and a place that is not in it; the
  second mention of the official carries another type.
\<close>

definition officials :: "sentiment_data option" where
  "officials = Some \<lparr>documents = Some
     [\<lparr>entities = Some
         [(''0'', [''entity_name'' \<mapsto> ''Ana Rojas'', ''sentiment'' \<mapsto> ''negative'',
                   ''entity_type'' \<mapsto> ''PERSON'']),
          (''1'', [''entity_name'' \<mapsto> ''Colon'', ''sentiment'' \<mapsto> ''neutral'',
                   ''entity_type'' \<mapsto> ''LOCATION''])]\<rparr>,
      \<lparr>entities = Some
         [(''0'', [''entity_name'' \<mapsto> ''Ana Rojas'', ''sentiment'' \<mapsto> ''negative'',
                   ''entity_type'' \<mapsto> ''ORG''])]\<rparr>],
     other_keys = [''document_set_id'']\<rparr>"

text \<open>Three mentions without a name, under different keys of two documents.\<close>

definition nameless :: "sentiment_data option" where
  "nameless = Some \<lparr>documents = Some
     [\<lparr>entities = Some
         [(''0'', Map.empty),
          (''1'', [''sentiment'' \<mapsto> ''negative''])]\<rparr>,
      \<lparr>entities = Some
         [(''7'', [''entity_type'' \<mapsto> ''PERSON''])]\<rparr>],
     other_keys = []\<rparr>"

section \<open>Properties\<close>

subsection \<open>The pass as one fold over the mentions\<close>

lemma foldl_process_document:
  "foldl process_document es ds =
     foldl process_mention es (concat (map (\<lambda>doc. map snd (doc_entities doc)) ds))"
  by (induction ds arbitrary: es) (simp_all add: process_document_def)

lemma falsy_no_mentions: "falsy data \<Longrightarrow> all_mentions data = []"
  by (auto simp: falsy_def all_mentions_def get_documents_def split: option.splits)

lemma extract_as_fold:
  "extract_entities_from_sentiment_data data = foldl process_mention [] (all_mentions data)"
proof (cases "falsy data")
  case True
  then show ?thesis
    by (simp add: extract_entities_from_sentiment_data_def falsy_no_mentions)
next
  case False
  then show ?thesis
    by (simp add: extract_entities_from_sentiment_data_def foldl_process_document
        all_mentions_def)
qed

subsection \<open>Updating the first match\<close>

lemma length_update_first [simp]: "length (update_first P f xs) = length xs"
  by (induction xs) simp_all

lemma map_update_first:
  "(\<And>x. g (f x) = g x) \<Longrightarrow> map g (update_first P f xs) = map g xs"
  by (induction xs) simp_all

lemma nth_update_first:
  "i < length xs \<Longrightarrow> update_first P f xs ! i = xs ! i \<or> update_first P f xs ! i = f (xs ! i)"
proof (induction xs arbitrary: i)
  case Nil
  then show ?case by simp
next
  case (Cons x xs)
  then show ?case by (cases i) auto
qed

lemma nth_update_first_unchanged:
  "i < length xs \<Longrightarrow> \<not> P (xs ! i) \<Longrightarrow> update_first P f xs ! i = xs ! i"
proof (induction xs arbitrary: i)
  case Nil
  then show ?case by simp
next
  case (Cons x xs)
  then show ?case by (cases i) auto
qed

lemma find_append:
  "find P (xs @ ys) = (case find P xs of None \<Rightarrow> find P ys | Some x \<Rightarrow> Some x)"
  by (induction xs) simp_all

subsection \<open>One mention\<close>

lemma merge_mention_simps [simp]:
  "name (merge_mention s e) = name e"
  "type (merge_mention s e) = type e"
  "government_role (merge_mention s e) = government_role e"
  "mention_count (merge_mention s e) = mention_count e + 1"
  "sentiment (merge_mention s e) = (if s = sentiment e then sentiment e else ''mixed'')"
  by (simp_all add: merge_mention_def Let_def)

lemma find_update_first_same:
  "find (\<lambda>e. name e = n) (update_first (\<lambda>e. name e = n) (merge_mention s) es) =
     map_option (merge_mention s) (find (\<lambda>e. name e = n) es)"
  by (induction es) simp_all

lemma find_update_first_other:
  "k \<noteq> n \<Longrightarrow>
   find (\<lambda>e. name e = n) (update_first (\<lambda>e. name e = k) (merge_mention s) es) =
     find (\<lambda>e. name e = n) es"
  by (induction es) auto

lemma process_mention_cases:
  "process_mention es m =
     (case find (\<lambda>e. name e = mention_name m) es of
        Some existing_entity \<Rightarrow>
          update_first (\<lambda>e. name e = mention_name m) (merge_mention (mention_sentiment m)) es
      | None \<Rightarrow> es @ [new_entity m])"
  by (simp add: process_mention_def new_entity_def Let_def split: option.splits)

lemma find_name_None: "find (\<lambda>e. name e = n) es = None \<longleftrightarrow> n \<notin> set (map name es)"
  by (auto simp: find_None_iff)

lemma names_process_mention:
  "map name (process_mention es m) =
     (if mention_name m \<in> set (map name es) then map name es
      else map name es @ [mention_name m])"
proof (cases "find (\<lambda>e. name e = mention_name m) es")
  case None
  then show ?thesis
    using find_name_None [of "mention_name m" es]
    by (simp add: process_mention_cases new_entity_def)
next
  case (Some e)
  then have "mention_name m \<in> set (map name es)"
    using find_name_None [of "mention_name m" es] by simp
  with Some show ?thesis
    by (simp add: process_mention_cases map_update_first)
qed

lemma find_process_mention:
  "find (\<lambda>e. name e = n) (process_mention es m) =
     (if mention_name m = n
      then Some (case find (\<lambda>e. name e = n) es of
                   Some e \<Rightarrow> merge_mention (mention_sentiment m) e
                 | None \<Rightarrow> new_entity m)
      else find (\<lambda>e. name e = n) es)"
proof (cases "mention_name m = n")
  case True
  show ?thesis
  proof (cases "find (\<lambda>e. name e = n) es")
    case None
    then have "find (\<lambda>e. name e = n) (es @ [new_entity m]) = Some (new_entity m)"
      using True by (simp add: find_append new_entity_def)
    with None True show ?thesis by (simp add: process_mention_cases)
  next
    case (Some e)
    with True show ?thesis
      by (simp add: process_mention_cases find_update_first_same)
  qed
next
  case False
  show ?thesis
  proof (cases "find (\<lambda>e. name e = mention_name m) es")
    case None
    with False show ?thesis
      by (simp add: process_mention_cases find_append new_entity_def split: option.splits)
  next
    case (Some e)
    with False show ?thesis
      by (simp add: process_mention_cases find_update_first_other)
  qed
qed

lemma length_process_mention: "length es \<le> length (process_mention es m)"
  by (simp add: process_mention_cases split: option.splits)

lemma nth_process_mention:
  "i < length es \<Longrightarrow>
   process_mention es m ! i = es ! i \<or>
   process_mention es m ! i = merge_mention (mention_sentiment m) (es ! i)"
  by (simp add: process_mention_cases nth_append nth_update_first split: option.splits)

lemma frame_step:
  assumes "i < length es"
  shows "i < length (process_mention es m) \<and>
         name (process_mention es m ! i) = name (es ! i) \<and>
         type (process_mention es m ! i) = type (es ! i) \<and>
         government_role (process_mention es m ! i) = government_role (es ! i) \<and>
         (sentiment (es ! i) = ''mixed'' \<longrightarrow> sentiment (process_mention es m ! i) = ''mixed'')"
proof -
  have "i < length (process_mention es m)"
    using assms length_process_mention [of es m] by simp
  moreover from nth_process_mention [OF assms, of m]
  have "name (process_mention es m ! i) = name (es ! i) \<and>
        type (process_mention es m ! i) = type (es ! i) \<and>
        government_role (process_mention es m ! i) = government_role (es ! i) \<and>
        (sentiment (es ! i) = ''mixed'' \<longrightarrow> sentiment (process_mention es m ! i) = ''mixed'')"
    by (elim disjE) simp_all
  ultimately show ?thesis by simp
qed

subsection \<open>The whole pass\<close>

lemma frame_fold:
  "i < length es \<Longrightarrow>
   i < length (foldl process_mention es ms) \<and>
   name (foldl process_mention es ms ! i) = name (es ! i) \<and>
   type (foldl process_mention es ms ! i) = type (es ! i) \<and>
   government_role (foldl process_mention es ms ! i) = government_role (es ! i) \<and>
   (sentiment (es ! i) = ''mixed'' \<longrightarrow> sentiment (foldl process_mention es ms ! i) = ''mixed'')"
proof (induction ms arbitrary: es)
  case Nil
  then show ?case by simp
next
  case (Cons m ms)
  from frame_step [OF Cons.prems, of m] Cons.IH [of "process_mention es m"]
  show ?case by simp
qed

lemma merge_all_simps [simp]:
  "name (merge_all e ms) = name e"
  "type (merge_all e ms) = type e"
  "government_role (merge_all e ms) = government_role e"
  "mention_count (merge_all e ms) = mention_count e + int (length ms)"
  unfolding merge_all_def by (induction ms arbitrary: e) simp_all

lemma sentiment_merge_all:
  "sentiment (merge_all e ms) =
     (if list_all (\<lambda>m. mention_sentiment m = sentiment e) ms then sentiment e else ''mixed'')"
  unfolding merge_all_def
proof (induction ms arbitrary: e)
  case Nil
  then show ?case by simp
next
  case (Cons m ms)
  show ?case
  proof (cases "mention_sentiment m = sentiment e")
    case True
    then show ?thesis by (simp add: Cons.IH)
  next
    case False
    then show ?thesis by (simp add: Cons.IH)
  qed
qed

lemma find_fold_Some:
  "find (\<lambda>e. name e = n) es = Some e \<Longrightarrow>
   find (\<lambda>e. name e = n) (foldl process_mention es ms) = Some (merge_all e (mentions_of n ms))"
proof (induction ms arbitrary: es e)
  case Nil
  then show ?case by (simp add: mentions_of_def merge_all_def)
next
  case (Cons m ms)
  show ?case
  proof (cases "mention_name m = n")
    case True
    with Cons.prems have
      "find (\<lambda>e. name e = n) (process_mention es m) = Some (merge_mention (mention_sentiment m) e)"
      by (simp add: find_process_mention)
    from Cons.IH [OF this] True show ?thesis
      by (simp add: mentions_of_def merge_all_def)
  next
    case False
    with Cons.prems have "find (\<lambda>e. name e = n) (process_mention es m) = Some e"
      by (simp add: find_process_mention)
    from Cons.IH [OF this] False show ?thesis
      by (simp add: mentions_of_def)
  qed
qed

lemma find_fold_None:
  "find (\<lambda>e. name e = n) es = None \<Longrightarrow>
   find (\<lambda>e. name e = n) (foldl process_mention es ms) =
     (case mentions_of n ms of [] \<Rightarrow> None | m # rest \<Rightarrow> Some (merge_all (new_entity m) rest))"
proof (induction ms arbitrary: es)
  case Nil
  then show ?case by (simp add: mentions_of_def)
next
  case (Cons m ms)
  show ?case
  proof (cases "mention_name m = n")
    case True
    with Cons.prems have
      "find (\<lambda>e. name e = n) (process_mention es m) = Some (new_entity m)"
      by (simp add: find_process_mention)
    from find_fold_Some [OF this] True show ?thesis
      by (simp add: mentions_of_def)
  next
    case False
    with Cons.prems have "find (\<lambda>e. name e = n) (process_mention es m) = None"
      by (simp add: find_process_mention)
    from Cons.IH [OF this] False show ?thesis
      by (simp add: mentions_of_def)
  qed
qed

lemma distinct_names_process_mention:
  "distinct (map name es) \<Longrightarrow> distinct (map name (process_mention es m))"
  by (simp add: names_process_mention)

lemma distinct_names_fold:
  "distinct (map name es) \<Longrightarrow> distinct (map name (foldl process_mention es ms))"
  by (induction ms arbitrary: es) (simp_all add: distinct_names_process_mention)

lemma find_distinct_member:
  "distinct (map name es) \<Longrightarrow> e \<in> set es \<Longrightarrow> find (\<lambda>x. name x = name e) es = Some e"
  by (induction es) auto

lemma names_fold:
  "map name (foldl process_mention es ms) =
     map name es @ first_seen (filter (\<lambda>n. n \<notin> set (map name es)) (map mention_name ms))"
proof (induction ms arbitrary: es)
  case Nil
  then show ?case by simp
next
  case (Cons m ms)
  show ?case
  proof (cases "mention_name m \<in> set (map name es)")
    case True
    then show ?thesis
      using Cons.IH [of "process_mention es m"] by (simp add: names_process_mention)
  next
    case False
    have "removeAll (mention_name m) (filter (\<lambda>n. n \<notin> set (map name es)) (map mention_name ms)) =
          filter (\<lambda>n. n \<notin> set (map name es @ [mention_name m])) (map mention_name ms)"
      by (induction ms) auto
    with False show ?thesis
      using Cons.IH [of "process_mention es m"] by (simp add: names_process_mention)
  qed
qed

lemma set_first_seen [simp]: "set (first_seen xs) = set xs"
  by (induction xs rule: first_seen.induct) auto

lemma distinct_first_seen [simp]: "distinct (first_seen xs)"
  by (induction xs rule: first_seen.induct) auto

lemma roster_member:
  assumes "e \<in> set (foldl process_mention [] ms)"
  shows "\<exists>m rest. mentions_of (name e) ms = m # rest \<and> e = merge_all (new_entity m) rest"
proof -
  have "distinct (map name (foldl process_mention [] ms))"
    by (rule distinct_names_fold) simp
  from find_distinct_member [OF this assms]
  have "find (\<lambda>x. name x = name e) (foldl process_mention [] ms) = Some e" .
  moreover have "find (\<lambda>x. name x = name e) (foldl process_mention [] ms) =
      (case mentions_of (name e) ms of [] \<Rightarrow> None
       | m # rest \<Rightarrow> Some (merge_all (new_entity m) rest))"
    by (rule find_fold_None) simp
  ultimately show ?thesis
    by (cases "mentions_of (name e) ms") auto
qed

lemma roster_member_extract:
  "e \<in> set (extract_entities_from_sentiment_data data) \<Longrightarrow>
   \<exists>m rest. mentions_of (name e) (all_mentions data) = m # rest \<and>
      e = merge_all (new_entity m) rest"
  using roster_member [of e "all_mentions data"] by (simp add: extract_as_fold)

lemma names_extract:
  "map name (extract_entities_from_sentiment_data data) =
     first_seen (map mention_name (all_mentions data))"
  using names_fold [of "[]" "all_mentions data"] by (simp add: extract_as_fold)

lemma find_filter_hd:
  "filter P xs = x # rest \<Longrightarrow> find P xs = Some x"
  by (induction xs) (auto split: if_splits)

lemma concat_no_mentions:
  "\<forall>doc \<in> set ds. doc_entities doc = [] \<Longrightarrow>
   concat (map (\<lambda>doc. map snd (doc_entities doc)) ds) = []"
  by (induction ds) simp_all

lemma filter_distinct_name:
  "distinct (map name es) \<Longrightarrow> n \<in> set (map name es) \<Longrightarrow>
   \<exists>e. filter (\<lambda>e. name e = n) es = [e]"
proof (induction es)
  case Nil
  then show ?case by simp
next
  case (Cons x es)
  show ?case
  proof (cases "name x = n")
    case True
    with Cons.prems have "n \<notin> name ` set es"
      by simp
    then have "filter (\<lambda>e. name e = n) es = []"
      unfolding filter_empty_conv by blast
    with True show ?thesis by simp
  next
    case False
    with Cons show ?thesis by auto
  qed
qed

lemma mention_name_Unknown:
  "mention_name m = ''Unknown'' \<longleftrightarrow>
     m ''entity_name'' = None \<or> m ''entity_name'' = Some ''Unknown''"
  by (simp add: mention_name_def dict_get_def split: option.splits)

lemma mention_count_member:
  "e \<in> set (extract_entities_from_sentiment_data data) \<Longrightarrow>
   mention_count e = int (length (mentions_of (name e) (all_mentions data)))"
proof -
  assume "e \<in> set (extract_entities_from_sentiment_data data)"
  from roster_member_extract [OF this] obtain m rest where
    ms: "mentions_of (name e) (all_mentions data) = m # rest" and
    e: "e = merge_all (new_entity m) rest"
    by blast
  have "mention_count e = 1 + int (length rest)"
    by (subst e) (simp add: new_entity_def)
  then show ?thesis by (simp add: ms)
qed

subsection \<open>Lists of one and of two values\<close>

lemma two_values_differ:
  "map f xs = [a, b] \<Longrightarrow> a \<noteq> b \<Longrightarrow> \<exists>x \<in> set xs. \<exists>y \<in> set xs. f x \<noteq> f y"
proof -
  assume m: "map f xs = [a, b]" and ab: "a \<noteq> b"
  then obtain x y where xs: "xs = [x, y]" by (auto simp: map_eq_Cons_conv)
  with m ab have "f x \<noteq> f y" by simp
  with xs show ?thesis by auto
qed

lemma one_value_all:
  "map f xs = [a] \<Longrightarrow> \<forall>x \<in> set xs. f x = a"
  by (auto simp: map_eq_Cons_conv)

subsection \<open>Descending order\<close>




subsection \<open>The example inputs, evaluated\<close>

lemmas aggregator_defs = extract_entities_from_sentiment_data_def falsy_def get_documents_def
  process_document_def doc_entities_def process_mention_def mention_name_def
  mention_sentiment_def mention_type_def role_of_def dict_get_def entity_roles_def
  merge_mention_def Let_def

text \<open>The scenario of the specification gives the roster the specification expects.\<close>

lemma extract_scenario:
  "extract_entities_from_sentiment_data scenario =
     [\<lparr>name = ''A'', type = ''Unknown'', sentiment = ''mixed'', mention_count = 2,
        government_role = ''Unknown Role''\<rparr>,
      \<lparr>name = ''B'', type = ''Unknown'', sentiment = ''neutral'', mention_count = 1,
        government_role = ''Unknown Role''\<rparr>]"
  by (simp add: scenario_def aggregator_defs)

lemma all_mentions_scenario:
  "all_mentions scenario =
     [[''entity_name'' \<mapsto> ''A'', ''sentiment'' \<mapsto> ''negative''],
      [''entity_name'' \<mapsto> ''A'', ''sentiment'' \<mapsto> ''positive''],
      [''entity_name'' \<mapsto> ''B'', ''sentiment'' \<mapsto> ''neutral'']]"
  by (simp add: scenario_def all_mentions_def get_documents_def doc_entities_def)

lemma extract_officials:
  "extract_entities_from_sentiment_data officials =
     [\<lparr>name = ''Ana Rojas'', type = ''PERSON'', sentiment = ''negative'', mention_count = 2,
        government_role = ''Defense Chief''\<rparr>,
      \<lparr>name = ''Colon'', type = ''LOCATION'', sentiment = ''neutral'', mention_count = 1,
        government_role = ''Unknown Role''\<rparr>]"
  by (simp add: officials_def aggregator_defs)

section \<open>The claims\<close>

subsection \<open>One record per name\<close>

text \<open>
  Claim C1. The roster has exactly one record per distinct resolved name among the
  mentions of the input: the names of the records are pairwise different, they are
  exactly the resolved names that occur (\<^verbatim>\<open>Unknown\<close> standing for a missing name),
  and so the length of the roster is the number of distinct resolved names.
\<close>

theorem one_record_per_name:
  "distinct (map name (extract_entities_from_sentiment_data data)) \<and>
   set (map name (extract_entities_from_sentiment_data data)) =
     set (map mention_name (all_mentions data)) \<and>
   length (extract_entities_from_sentiment_data data) =
     card (set (map mention_name (all_mentions data)))"
proof -
  let ?out = "extract_entities_from_sentiment_data data"
  let ?ns = "map mention_name (all_mentions data)"
  have d: "distinct (map name ?out)" and s: "set (map name ?out) = set ?ns"
    by (simp_all only: names_extract distinct_first_seen set_first_seen)
  have "length ?out = length (map name ?out)" by simp
  also have "\<dots> = card (set (map name ?out))" using d by (simp only: distinct_card)
  finally show ?thesis using d s by simp
qed

subsection \<open>Mention counts\<close>

text \<open>
  Claim C2. The \<^verbatim>\<open>mention_count\<close> of every record of the roster is the number of
  mentions in the whole input whose resolved name is the record's name.
\<close>

theorem mention_count_is_occurrences:
  "e \<in> set (extract_entities_from_sentiment_data data) \<Longrightarrow>
   mention_count e = int (length (mentions_of (name e) (all_mentions data)))"
  by (rule mention_count_member)

text \<open>In the scenario, A is mentioned twice.\<close>

theorem mention_count_is_occurrences_witness:
  "\<lparr>name = ''A'', type = ''Unknown'', sentiment = ''mixed'', mention_count = 2,
      government_role = ''Unknown Role''\<rparr>
     \<in> set (extract_entities_from_sentiment_data scenario) \<and>
   length (mentions_of ''A'' (all_mentions scenario)) = 2"
proof -
  let ?e = "\<lparr>name = ''A'', type = ''Unknown'', sentiment = ''mixed'', mention_count = 2,
      government_role = ''Unknown Role''\<rparr>"
  have h: "?e \<in> set (extract_entities_from_sentiment_data scenario)"
    by (simp add: extract_scenario)
  from mention_count_is_occurrences [OF h] h show ?thesis by simp
qed

subsection \<open>Sentiment resolution\<close>

text \<open>
  Claim C3. For every record of the roster: when all mentions of its entity carry the
  same resolved sentiment \<open>v\<close>, the record's sentiment is \<open>v\<close>; when two mentions of
  its entity differ in resolved sentiment, the record's sentiment is \<^verbatim>\<open>mixed\<close>.
\<close>

theorem sentiment_resolution:
  assumes "e \<in> set (extract_entities_from_sentiment_data data)"
  shows "((\<forall>m \<in> set (mentions_of (name e) (all_mentions data)). mention_sentiment m = v)
            \<longrightarrow> sentiment e = v) \<and>
         ((\<exists>m \<in> set (mentions_of (name e) (all_mentions data)).
           \<exists>m' \<in> set (mentions_of (name e) (all_mentions data)).
             mention_sentiment m \<noteq> mention_sentiment m')
            \<longrightarrow> sentiment e = ''mixed'')"
proof -
  from roster_member_extract [OF assms] obtain m rest where
    ms: "mentions_of (name e) (all_mentions data) = m # rest" and
    e: "e = merge_all (new_entity m) rest"
    by blast
  have snt: "sentiment e =
      (if list_all (\<lambda>m'. mention_sentiment m' = mention_sentiment m) rest
       then mention_sentiment m else ''mixed'')"
    by (simp add: e sentiment_merge_all new_entity_def)
  show ?thesis
  proof (intro conjI impI)
    assume "\<forall>m \<in> set (mentions_of (name e) (all_mentions data)). mention_sentiment m = v"
    then show "sentiment e = v"
      by (simp add: ms snt list_all_iff)
  next
    assume "\<exists>m \<in> set (mentions_of (name e) (all_mentions data)).
           \<exists>m' \<in> set (mentions_of (name e) (all_mentions data)).
             mention_sentiment m \<noteq> mention_sentiment m'"
    then obtain a b where ab: "a \<in> set (m # rest)" "b \<in> set (m # rest)"
        "mention_sentiment a \<noteq> mention_sentiment b"
      unfolding ms by blast
    have "\<not> list_all (\<lambda>m'. mention_sentiment m' = mention_sentiment m) rest"
    proof
      assume "list_all (\<lambda>m'. mention_sentiment m' = mention_sentiment m) rest"
      then have "\<forall>x \<in> set (m # rest). mention_sentiment x = mention_sentiment m"
        by (simp add: list_all_iff)
      with ab show False by metis
    qed
    then show "sentiment e = ''mixed''"
      by (simp add: snt)
  qed
qed

text \<open>
  In the scenario the two mentions of A disagree and the record of A is
  \<^verbatim>\<open>mixed\<close>; the only mention of B is neutral and so is the record of B.
\<close>

theorem sentiment_resolution_witness:
  "extract_entities_from_sentiment_data scenario ! 0
     \<in> set (extract_entities_from_sentiment_data scenario) \<and>
   map mention_sentiment
     (mentions_of (name (extract_entities_from_sentiment_data scenario ! 0))
        (all_mentions scenario)) = [''negative'', ''positive''] \<and>
   sentiment (extract_entities_from_sentiment_data scenario ! 0) = ''mixed'' \<and>
   extract_entities_from_sentiment_data scenario ! 1
     \<in> set (extract_entities_from_sentiment_data scenario) \<and>
   map mention_sentiment
     (mentions_of (name (extract_entities_from_sentiment_data scenario ! 1))
        (all_mentions scenario)) = [''neutral''] \<and>
   sentiment (extract_entities_from_sentiment_data scenario ! 1) = ''neutral''"
proof -
  let ?out = "extract_entities_from_sentiment_data scenario"
  have a: "?out ! 0 \<in> set ?out" and b: "?out ! 1 \<in> set ?out"
    by (simp_all add: extract_scenario)
  have na: "name (?out ! 0) = ''A''" and nb: "name (?out ! 1) = ''B''"
    by (simp_all add: extract_scenario)
  have ma: "map mention_sentiment (mentions_of (name (?out ! 0)) (all_mentions scenario)) =
      [''negative'', ''positive'']"
    unfolding na
    by (simp add: all_mentions_scenario mentions_of_def mention_name_def
        mention_sentiment_def dict_get_def)
  have mb: "map mention_sentiment (mentions_of (name (?out ! 1)) (all_mentions scenario)) =
      [''neutral'']"
    unfolding nb
    by (simp add: all_mentions_scenario mentions_of_def mention_name_def
        mention_sentiment_def dict_get_def)
  have differ: "\<exists>m \<in> set (mentions_of (name (?out ! 0)) (all_mentions scenario)).
      \<exists>m' \<in> set (mentions_of (name (?out ! 0)) (all_mentions scenario)).
        mention_sentiment m \<noteq> mention_sentiment m'"
    by (rule two_values_differ [OF ma]) simp
  have same: "\<forall>m \<in> set (mentions_of (name (?out ! 1)) (all_mentions scenario)).
      mention_sentiment m = ''neutral''"
    by (rule one_value_all [OF mb])
  from sentiment_resolution [OF a, of "''x''"] differ
  have mixed: "sentiment (?out ! 0) = ''mixed''" by (rule conjunct2 [THEN mp])
  from sentiment_resolution [OF b, of "''neutral''"] same
  have neutral: "sentiment (?out ! 1) = ''neutral''" by (rule conjunct1 [THEN mp])
  from a ma mixed b mb neutral show ?thesis by (intro conjI)
qed

subsection \<open>The order of the table\<close>




subsection \<open>Mixed never reverts\<close>

text \<open>
  Claim C5. Take the roster at any moment of the pass and a record in it whose sentiment
  is \<^verbatim>\<open>mixed\<close>. Whatever mentions are processed afterwards, the record at that
  position is still the record of the same entity and its sentiment is still
  \<^verbatim>\<open>mixed\<close>.
\<close>

theorem mixed_is_absorbing:
  "i < length es \<Longrightarrow> sentiment (es ! i) = ''mixed'' \<Longrightarrow>
   i < length (foldl process_mention es ms) \<and>
   name (foldl process_mention es ms ! i) = name (es ! i) \<and>
   sentiment (foldl process_mention es ms ! i) = ''mixed''"
  using frame_fold [of i es ms] by simp

text \<open>
  A negative and then a positive mention of A leave the record \<^verbatim>\<open>mixed\<close>; a third,
  negative mention, equal to the first one, does not bring \<^verbatim>\<open>negative\<close> back.
\<close>

theorem mixed_is_absorbing_witness:
  "sentiment (foldl process_mention []
      [[''entity_name'' \<mapsto> ''A'', ''sentiment'' \<mapsto> ''negative'']] ! 0) = ''negative'' \<and>
   0 < length (foldl process_mention []
      [[''entity_name'' \<mapsto> ''A'', ''sentiment'' \<mapsto> ''negative''],
       [''entity_name'' \<mapsto> ''A'', ''sentiment'' \<mapsto> ''positive'']]) \<and>
   sentiment (foldl process_mention []
      [[''entity_name'' \<mapsto> ''A'', ''sentiment'' \<mapsto> ''negative''],
       [''entity_name'' \<mapsto> ''A'', ''sentiment'' \<mapsto> ''positive'']] ! 0) = ''mixed'' \<and>
   sentiment (foldl process_mention
      (foldl process_mention []
         [[''entity_name'' \<mapsto> ''A'', ''sentiment'' \<mapsto> ''negative''],
          [''entity_name'' \<mapsto> ''A'', ''sentiment'' \<mapsto> ''positive'']])
      [[''entity_name'' \<mapsto> ''A'', ''sentiment'' \<mapsto> ''negative'']] ! 0) = ''mixed''"
proof -
  let ?neg = "[''entity_name'' \<mapsto> ''A'', ''sentiment'' \<mapsto> ''negative'']"
  let ?pos = "[''entity_name'' \<mapsto> ''A'', ''sentiment'' \<mapsto> ''positive'']"
  let ?es = "foldl process_mention [] [?neg, ?pos]"
  have first: "sentiment (foldl process_mention [] [?neg] ! 0) = ''negative''"
    by (simp add: aggregator_defs)
  have len: "0 < length ?es" and mixed: "sentiment (?es ! 0) = ''mixed''"
    by (simp_all add: aggregator_defs)
  from mixed_is_absorbing [OF len mixed, of "[?neg]"]
  have "sentiment (foldl process_mention ?es [?neg] ! 0) = ''mixed''" by blast
  with first len mixed show ?thesis by blast
qed

subsection \<open>Missing fields\<close>

text \<open>
  Claim C6. A mention that lacks a field is processed exactly as the same mention with
  the default written in: \<^verbatim>\<open>Unknown\<close> for a missing \<^verbatim>\<open>entity_name\<close>,
  \<^verbatim>\<open>neutral\<close> for a missing \<^verbatim>\<open>sentiment\<close>, \<^verbatim>\<open>Unknown\<close> for a missing
  \<^verbatim>\<open>entity_type\<close>; a mention without any field starts the record with these three
  values. When some mention of the input lacks a name, the roster has exactly one record
  named \<^verbatim>\<open>Unknown\<close>, and it counts every mention without a name (together with the
  mentions whose name is that very string). The aggregator is a total function on mentions
  with absent fields: no case of it is an error.
\<close>

theorem missing_fields_default:
  "(entity_data ''entity_name'' = None \<longrightarrow>
      process_mention es entity_data =
        process_mention es (entity_data(''entity_name'' \<mapsto> ''Unknown''))) \<and>
   (entity_data ''sentiment'' = None \<longrightarrow>
      process_mention es entity_data =
        process_mention es (entity_data(''sentiment'' \<mapsto> ''neutral''))) \<and>
   (entity_data ''entity_type'' = None \<longrightarrow>
      process_mention es entity_data =
        process_mention es (entity_data(''entity_type'' \<mapsto> ''Unknown''))) \<and>
   process_mention [] Map.empty =
     [\<lparr>name = ''Unknown'', type = ''Unknown'', sentiment = ''neutral'', mention_count = 1,
        government_role = ''Unknown Role''\<rparr>] \<and>
   ((\<exists>m \<in> set (all_mentions data). m ''entity_name'' = None) \<longrightarrow>
      (\<exists>e. filter (\<lambda>e. name e = ''Unknown'') (extract_entities_from_sentiment_data data) = [e] \<and>
           mention_count e =
             int (length (filter (\<lambda>m. m ''entity_name'' = None \<or>
                                        m ''entity_name'' = Some ''Unknown'')
                            (all_mentions data)))))"
proof (intro conjI impI)
  assume "\<exists>m \<in> set (all_mentions data). m ''entity_name'' = None"
  then obtain m where "m \<in> set (all_mentions data)" "mention_name m = ''Unknown''"
    by (auto simp: mention_name_Unknown)
  then have "''Unknown'' \<in> mention_name ` set (all_mentions data)"
    by (metis imageI)
  then have "''Unknown'' \<in> set (map mention_name (all_mentions data))"
    by simp
  then have "''Unknown'' \<in> set (map name (extract_entities_from_sentiment_data data))"
    by (simp only: names_extract set_first_seen)
  moreover have "distinct (map name (extract_entities_from_sentiment_data data))"
    by (simp only: names_extract distinct_first_seen)
  ultimately obtain e where
    e: "filter (\<lambda>e. name e = ''Unknown'') (extract_entities_from_sentiment_data data) = [e]"
    using filter_distinct_name by blast
  then have
    "e \<in> set (filter (\<lambda>e. name e = ''Unknown'') (extract_entities_from_sentiment_data data))"
    by simp
  then have mem: "e \<in> set (extract_entities_from_sentiment_data data)"
    and n: "name e = ''Unknown''"
    by simp_all
  have "mention_count e = int (length (mentions_of ''Unknown'' (all_mentions data)))"
    using mention_count_member [OF mem] n by simp
  then have "mention_count e =
             int (length (filter (\<lambda>m. m ''entity_name'' = None \<or>
                                        m ''entity_name'' = Some ''Unknown'')
                            (all_mentions data)))"
    by (simp add: mentions_of_def mention_name_Unknown)
  with e show
    "\<exists>e. filter (\<lambda>e. name e = ''Unknown'') (extract_entities_from_sentiment_data data) = [e] \<and>
           mention_count e =
             int (length (filter (\<lambda>m. m ''entity_name'' = None \<or>
                                        m ''entity_name'' = Some ''Unknown'')
                            (all_mentions data)))"
    by blast
qed (simp_all add: process_mention_def mention_name_def mention_sentiment_def
      mention_type_def role_of_def entity_roles_def dict_get_def Let_def)

text \<open>
  The three nameless mentions of \<open>nameless\<close>, under the keys 0, 1 and 7, end in one
  record named \<^verbatim>\<open>Unknown\<close> with three mentions.
\<close>

theorem missing_fields_default_witness:
  "process_mention [] Map.empty =
     process_mention [] [''entity_name'' \<mapsto> ''Unknown''] \<and>
   process_mention [] Map.empty =
     process_mention [] [''sentiment'' \<mapsto> ''neutral''] \<and>
   process_mention [] Map.empty =
     process_mention [] [''entity_type'' \<mapsto> ''Unknown''] \<and>
   length (all_mentions nameless) = 3 \<and>
   extract_entities_from_sentiment_data nameless =
     [\<lparr>name = ''Unknown'', type = ''Unknown'', sentiment = ''mixed'', mention_count = 3,
        government_role = ''Unknown Role''\<rparr>]"
proof -
  have none: "(Map.empty :: mention) ''entity_name'' = None"
    "(Map.empty :: mention) ''sentiment'' = None"
    "(Map.empty :: mention) ''entity_type'' = None"
    by simp_all
  have ms: "all_mentions nameless =
      [Map.empty, [''sentiment'' \<mapsto> ''negative''], [''entity_type'' \<mapsto> ''PERSON'']]"
    by (simp add: nameless_def all_mentions_def get_documents_def doc_entities_def)
  have ex: "\<exists>m \<in> set (all_mentions nameless). m ''entity_name'' = None"
    unfolding ms by simp
  have out: "extract_entities_from_sentiment_data nameless =
     [\<lparr>name = ''Unknown'', type = ''Unknown'', sentiment = ''mixed'', mention_count = 3,
        government_role = ''Unknown Role''\<rparr>]"
    by (simp add: nameless_def aggregator_defs)
  from missing_fields_default [of Map.empty "[]" nameless] none ex
  have "process_mention [] Map.empty =
          process_mention [] [''entity_name'' \<mapsto> ''Unknown'']"
    and "process_mention [] Map.empty =
          process_mention [] [''sentiment'' \<mapsto> ''neutral'']"
    and "process_mention [] Map.empty =
          process_mention [] [''entity_type'' \<mapsto> ''Unknown'']"
    by blast+
  then show ?thesis using out by (simp add: ms)
qed

subsection \<open>Roles\<close>

text \<open>
  Claim C7. The role of every record of the roster is the entry of the role table for
  the record's name, or \<^verbatim>\<open>Unknown Role\<close> when the table has no such key.
\<close>

theorem role_from_table:
  "e \<in> set (extract_entities_from_sentiment_data data) \<Longrightarrow>
   government_role e =
     (case entity_roles (name e) of Some r \<Rightarrow> r | None \<Rightarrow> ''Unknown Role'')"
proof -
  assume "e \<in> set (extract_entities_from_sentiment_data data)"
  from roster_member_extract [OF this] obtain m rest where
    ms: "mentions_of (name e) (all_mentions data) = m # rest" and
    e: "e = merge_all (new_entity m) rest"
    by blast
  have "government_role e = role_of (name e)"
    by (subst (1 2) e) (simp add: new_entity_def)
  then show ?thesis by (simp add: role_of_def dict_get_def)
qed

text \<open>
  In \<open>officials\<close>, Ana Rojas is a key of the table and Colon is not.
\<close>

theorem role_from_table_witness:
  "extract_entities_from_sentiment_data officials ! 0
     \<in> set (extract_entities_from_sentiment_data officials) \<and>
   name (extract_entities_from_sentiment_data officials ! 0) = ''Ana Rojas'' \<and>
   entity_roles ''Ana Rojas'' = Some ''Defense Chief'' \<and>
   government_role (extract_entities_from_sentiment_data officials ! 0) = ''Defense Chief'' \<and>
   extract_entities_from_sentiment_data officials ! 1
     \<in> set (extract_entities_from_sentiment_data officials) \<and>
   name (extract_entities_from_sentiment_data officials ! 1) = ''Colon'' \<and>
   entity_roles ''Colon'' = None \<and>
   government_role (extract_entities_from_sentiment_data officials ! 1) = ''Unknown Role''"
proof -
  let ?out = "extract_entities_from_sentiment_data officials"
  have a: "?out ! 0 \<in> set ?out" and b: "?out ! 1 \<in> set ?out"
    by (simp_all add: extract_officials)
  have na: "name (?out ! 0) = ''Ana Rojas''" and nb: "name (?out ! 1) = ''Colon''"
    by (simp_all add: extract_officials)
  have ta: "entity_roles ''Ana Rojas'' = Some ''Defense Chief''"
    and tb: "entity_roles ''Colon'' = None"
    by (simp_all add: entity_roles_def)
  from role_from_table [OF a] have "government_role (?out ! 0) = ''Defense Chief''"
    unfolding na ta by simp
  moreover from role_from_table [OF b] have "government_role (?out ! 1) = ''Unknown Role''"
    unfolding nb tb by simp
  ultimately show ?thesis using a b na nb ta tb by simp
qed

subsection \<open>Input without mentions\<close>

text \<open>
  Claim C8. When the sequence of documents is empty, or every document of it has no
  mention (an empty mapping, or none), the aggregator returns the empty list; it has no
  error case.
\<close>

theorem no_mentions_gives_empty:
  "\<forall>doc \<in> set ds. doc_entities doc = [] \<Longrightarrow>
   extract_entities_from_sentiment_data (Some \<lparr>documents = Some ds, other_keys = ks\<rparr>) = []"
  by (simp add: extract_as_fold all_mentions_def get_documents_def concat_no_mentions)

text \<open>No document at all, and two documents with an empty mapping.\<close>

theorem no_mentions_gives_empty_witness:
  "extract_entities_from_sentiment_data (Some \<lparr>documents = Some [], other_keys = []\<rparr>) = [] \<and>
   doc_entities \<lparr>entities = Some []\<rparr> = [] \<and>
   extract_entities_from_sentiment_data
     (Some \<lparr>documents = Some [\<lparr>entities = Some []\<rparr>, \<lparr>entities = Some []\<rparr>],
            other_keys = []\<rparr>) = []"
proof -
  have e: "doc_entities \<lparr>entities = Some []\<rparr> = []"
    by (simp add: doc_entities_def)
  have h0: "\<forall>doc \<in> set ([] :: document list). doc_entities doc = []"
    by simp
  have h2: "\<forall>doc \<in> set [\<lparr>entities = Some []\<rparr>, \<lparr>entities = Some []\<rparr>]. doc_entities doc = []"
    by (simp add: e)
  from no_mentions_gives_empty [OF h0, of "[]"] no_mentions_gives_empty [OF h2, of "[]"] e
  show ?thesis by blast
qed

subsection \<open>What a later mention leaves alone\<close>

text \<open>
  Claim C9. Processing further mentions never changes the name, the type or the role of
  a record that is already in the roster, and never moves it; only its count and its
  sentiment can differ afterwards. So in the result every record has the type and the
  role that the first mention of its entity gave it.
\<close>

theorem existing_record_frame:
  "(i < length es \<longrightarrow>
      i < length (foldl process_mention es ms) \<and>
      name (foldl process_mention es ms ! i) = name (es ! i) \<and>
      type (foldl process_mention es ms ! i) = type (es ! i) \<and>
      government_role (foldl process_mention es ms ! i) = government_role (es ! i)) \<and>
   (e \<in> set (extract_entities_from_sentiment_data data) \<longrightarrow>
      (\<exists>m. find (\<lambda>m. mention_name m = name e) (all_mentions data) = Some m \<and>
           type e = mention_type m \<and> government_role e = role_of (mention_name m)))"
proof (intro conjI impI)
  assume "e \<in> set (extract_entities_from_sentiment_data data)"
  from roster_member_extract [OF this] obtain m rest where
    ms: "mentions_of (name e) (all_mentions data) = m # rest" and
    e: "e = merge_all (new_entity m) rest"
    by blast
  from ms have "find (\<lambda>m. mention_name m = name e) (all_mentions data) = Some m"
    unfolding mentions_of_def by (rule find_filter_hd)
  moreover have "type e = mention_type m" "government_role e = role_of (mention_name m)"
    by (subst e, simp add: new_entity_def)+
  ultimately show "\<exists>m. find (\<lambda>m. mention_name m = name e) (all_mentions data) = Some m \<and>
           type e = mention_type m \<and> government_role e = role_of (mention_name m)"
    by blast
qed (simp_all add: frame_fold)

text \<open>
  In \<open>officials\<close> the second mention of Ana Rojas carries the type \<^verbatim>\<open>ORG\<close>; the
  record keeps \<^verbatim>\<open>PERSON\<close>, the type of the first mention, and counts two mentions.
\<close>

theorem existing_record_frame_witness:
  "0 < length (process_mention []
      [''entity_name'' \<mapsto> ''Ana Rojas'', ''sentiment'' \<mapsto> ''negative'',
       ''entity_type'' \<mapsto> ''PERSON'']) \<and>
   type (foldl process_mention
      (process_mention []
         [''entity_name'' \<mapsto> ''Ana Rojas'', ''sentiment'' \<mapsto> ''negative'',
          ''entity_type'' \<mapsto> ''PERSON''])
      [[''entity_name'' \<mapsto> ''Ana Rojas'', ''sentiment'' \<mapsto> ''negative'',
        ''entity_type'' \<mapsto> ''ORG'']] ! 0) = ''PERSON'' \<and>
   extract_entities_from_sentiment_data officials ! 0
     \<in> set (extract_entities_from_sentiment_data officials) \<and>
   type (extract_entities_from_sentiment_data officials ! 0) = ''PERSON'' \<and>
   mention_count (extract_entities_from_sentiment_data officials ! 0) = 2"
proof -
  let ?m1 = "[''entity_name'' \<mapsto> ''Ana Rojas'', ''sentiment'' \<mapsto> ''negative'',
       ''entity_type'' \<mapsto> ''PERSON'']"
  let ?m2 = "[''entity_name'' \<mapsto> ''Ana Rojas'', ''sentiment'' \<mapsto> ''negative'',
       ''entity_type'' \<mapsto> ''ORG'']"
  let ?es = "process_mention [] ?m1"
  let ?out = "extract_entities_from_sentiment_data officials"
  have len: "0 < length ?es" and ty: "type (?es ! 0) = ''PERSON''"
    by (simp_all add: aggregator_defs)
  have mem: "?out ! 0 \<in> set ?out" and cnt: "mention_count (?out ! 0) = 2"
    and ty': "type (?out ! 0) = ''PERSON''"
    by (simp_all add: extract_officials)
  from existing_record_frame [of 0 ?es "[?m2]" "?out ! 0" officials] len mem
  have "type (foldl process_mention ?es [?m2] ! 0) = type (?es ! 0)"
    by blast
  with ty have "type (foldl process_mention ?es [?m2] ! 0) = ''PERSON''" by simp
  with len mem cnt ty' show ?thesis by blast
qed

subsection \<open>Absent input\<close>

text \<open>
  Claim C10. The aggregator returns the empty list for \<^verbatim>\<open>None\<close>, for the empty
  dictionary, and for every dictionary without a \<^verbatim>\<open>documents\<close> key, whatever its
  other keys are.
\<close>

theorem absent_input_gives_empty:
  "extract_entities_from_sentiment_data None = [] \<and>
   extract_entities_from_sentiment_data (Some \<lparr>documents = None, other_keys = []\<rparr>) = [] \<and>
   extract_entities_from_sentiment_data (Some \<lparr>documents = None, other_keys = ks\<rparr>) = []"
  by (simp add: extract_entities_from_sentiment_data_def falsy_def get_documents_def)

end
